theory Spec2Isabelle
  imports Complex_Main "HOL-Library.Sublist" "HOL-Library.AList"
begin

section \<open>The inference bridge of SQL2NL-demo\<close>

text \<open>
  A shallow embedding of \<^verbatim>\<open>sql2text_bridge.py\<close>. Python objects that the module only
  hands on (tensors, datasets' payloads, weights) are values of a type parameter \<open>'t\<close>;
  the functions the module imports and that are not part of it (torch, the Dataset
  classes, the model classes, the metric, the request materializer) are the fields of a
  record of collaborators, each returning \<open>Inl\<close> of an exception where the Python may
  raise. Logging has no effect on any value and is left out.
\<close>

subsection \<open>Constants\<close>

definition MAX_DECODE :: nat where
  "MAX_DECODE = 500"

definition TRAIN_SEQ_DATASET_KEY :: string where
  "TRAIN_SEQ_DATASET_KEY = ''train_seq_dataset''"

definition TRAIN_TREE_DATASET_KEY :: string where
  "TRAIN_TREE_DATASET_KEY = ''train_tree_dataset''"

definition TRAIN_TABLE_FILE_PATH :: string where
  "TRAIN_TABLE_FILE_PATH = ''Dataset/spider/tables.json''"

definition SUPPORTED_MODELS :: "string list" where
  "SUPPORTED_MODELS = [''BiLSTM'', ''Relative-Transformer'', ''Transformer'', ''TreeLSTM'']"

definition TRAIN_DATA_FILES :: "string list" where
  "TRAIN_DATA_FILES = [''./Dataset/spider_composed_tree2seq/train.json'']"

subsection \<open>Data\<close>

text \<open>A raised Python exception; the string is what \<^verbatim>\<open>str(err)\<close> gives.\<close>

datatype exn = Exception string

fun str_exn :: "exn \<Rightarrow> string" where
  "str_exn (Exception msg) = msg"

text \<open>Object identity: a reference is the index of the object in the store.\<close>

type_synonym ref = nat

text \<open>
  The vocabulary (class \<^verbatim>\<open>Vocabulary\<close>, not in this module): the bridge reads its
  \<^verbatim>\<open>size\<close>, \<^verbatim>\<open>pad_idx\<close> and \<^verbatim>\<open>unk_idx\<close>.
\<close>

record Vocabulary =
  vocab_size :: int
  pad_idx :: int
  unk_idx :: int

text \<open>
  The hyperparameter namespace saved in a checkpoint (\<^verbatim>\<open>checkpoint['args']\<close>), with the
  attributes the bridge reads or writes.
\<close>

record Namespace =
  model :: string
  data :: string
  eval_batch_size :: int
  down_embed_dim :: int
  hid_size :: int
  dropout :: real
  max_oov_num :: int
  copy :: bool
  down_d_model :: int
  down_d_ff :: int
  down_head_num :: int
  down_layer_num :: int
  down_max_dist :: int
  rel_share :: bool
  k_v_share :: bool
  absolute_pos :: bool

text \<open>
  The four model classes of \<^verbatim>\<open>Model.model\<close>, each with the constructor arguments in the
  order \<^verbatim>\<open>build_model\<close> passes them.
\<close>

datatype torch_module =
  BiLSTM int int int int real int bool
| RelativeTransformer int int int int int int int real int int int bool bool bool
| AbsoluteTransformer int int int int int int int real int int bool bool
| TreeLSTM int int int int real int int bool

record 't checkpoint =
  args :: Namespace
  state_dict :: 't

record 't Dataset =
  vocab :: ref
  examples :: "'t list"
  origin_questions :: 't
  val_map_list :: 't
  idx2tok_map_list :: 't

record EvaluationResult =
  modelName :: string
  original :: string
  hasScore :: bool
  result :: string
  score :: real
  success :: bool
  failedReason :: string

text \<open>
  The module's globals (\<^verbatim>\<open>train_seq_dataset\<close>, \<^verbatim>\<open>train_tree_dataset\<close>,
  \<^verbatim>\<open>checkpoint_dict\<close>) and the store of Vocabulary objects the datasets refer to.
  The dict is an association list with one entry per key.
\<close>

record 't globals =
  train_seq_dataset :: "'t Dataset option"
  train_tree_dataset :: "'t Dataset option"
  checkpoint_dict :: "(string \<times> 't checkpoint) list"
  vocabularies :: "Vocabulary list"

subsection \<open>Model factory\<close>

text \<open>
  \<^verbatim>\<open>build_model(args, vocab)\<close>; \<open>TYPE_NUM\<close> is the constant of \<^verbatim>\<open>Utils.const\<close>, a
  parameter here.
\<close>

definition build_model :: "int \<Rightarrow> Namespace option \<Rightarrow> Vocabulary option \<Rightarrow> torch_module option" where
  "build_model TYPE_NUM args_opt vocab_opt =
    (case args_opt of None \<Rightarrow> None | Some a \<Rightarrow>
      (case vocab_opt of None \<Rightarrow> None | Some v \<Rightarrow>
        if model a = ''BiLSTM'' then
          Some (BiLSTM (down_embed_dim a) (vocab_size v) (hid_size a)
                  (pad_idx v) (dropout a) (max_oov_num a) (copy a))
        else if model a = ''Relative-Transformer'' then
          Some (RelativeTransformer (down_embed_dim a) (vocab_size v)
                  (down_d_model a) (down_d_ff a) (down_head_num a) (down_layer_num a)
                  (hid_size a) (dropout a) (pad_idx v) (down_max_dist a) (max_oov_num a)
                  (copy a) (rel_share a) (k_v_share a))
        else if model a = ''Transformer'' then
          Some (AbsoluteTransformer (down_embed_dim a) (vocab_size v)
                  (down_d_model a) (down_d_ff a) (down_head_num a) (down_layer_num a)
                  (hid_size a) (dropout a) (pad_idx v) (max_oov_num a) (copy a)
                  (absolute_pos a))
        else if model a = ''TreeLSTM'' then
          Some (TreeLSTM (down_embed_dim a) (vocab_size v) TYPE_NUM (hid_size a)
                  (dropout a) (pad_idx v) (max_oov_num a) (copy a))
        else None))"

text \<open>Which of the four classes a module is an instance of.\<close>

fun class_name :: "torch_module \<Rightarrow> string" where
  "class_name (BiLSTM _ _ _ _ _ _ _) = ''BiLSTM''"
| "class_name (RelativeTransformer _ _ _ _ _ _ _ _ _ _ _ _ _ _) = ''RelativeTransformer''"
| "class_name (AbsoluteTransformer _ _ _ _ _ _ _ _ _ _ _ _) = ''AbsoluteTransformer''"
| "class_name (TreeLSTM _ _ _ _ _ _ _ _) = ''TreeLSTM''"

subsection \<open>Collaborators\<close>

text \<open>
  What the module calls and does not define. A sequence tensor the bridge indexes
  (\<^verbatim>\<open>questions\<close>, the decoder's scores) is a list of rows; a tensor of shape (B, 1) of
  token ids is the list of its B entries. Scores are integers here: the bridge only
  compares them (\<^verbatim>\<open>argmax\<close>).
  \<^item> \<open>build_input_sql_json\<close>: \<^verbatim>\<open>file_utils.build_input_sql_json\<close>, the request materializer;
  \<^item> \<open>torch_load\<close>: \<^verbatim>\<open>torch.load\<close>;
  \<^item> \<open>corpus_vocab\<close>, \<open>corpus_payload\<close>: what the constructors \<^verbatim>\<open>SeqDataset\<close>
    (\<open>False\<close>) and \<^verbatim>\<open>TreeDataset\<close> (\<open>True\<close>) read from their files: the vocabulary they
    build when none is given, and the examples with \<^verbatim>\<open>origin_questions\<close>,
    \<^verbatim>\<open>val_map_list\<close> and \<^verbatim>\<open>idx2tok_map_list\<close>;
  \<^item> \<open>to_device\<close>, \<open>load_state_dict\<close>: \<^verbatim>\<open>model.to(device)\<close> and
    \<^verbatim>\<open>model.load_state_dict\<close>;
  \<^item> \<open>DataLoader\<close>: the batches of \<^verbatim>\<open>DataLoader(dataset, batch_size)\<close>;
  \<^item> \<open>get_seq_batch_data\<close>, \<open>get_tree_batch_data\<close>: of \<^verbatim>\<open>Data.utils\<close>, the second
    component of the tuple they return dropped;
  \<^item> \<open>encode\<close>, \<open>decode\<close>: the methods of the model, which is the module built by
    \<open>build_model\<close> with the loaded weights; \<open>encode\<close> gets its positional arguments
    as a list;
  \<^item> \<open>get_metric\<close>: \<^verbatim>\<open>Utils.metric.get_metric\<close>, of whose four results the bridge reads
    the second (scores) and third (texts).
\<close>

record 't collaborators =
  build_input_sql_json :: "string \<Rightarrow> string option \<Rightarrow> string \<Rightarrow> string \<Rightarrow> exn + string"
  torch_load :: "string \<Rightarrow> exn + 't checkpoint"
  corpus_vocab :: "bool \<Rightarrow> string list \<Rightarrow> string \<Rightarrow> exn + Vocabulary"
  corpus_payload :: "bool \<Rightarrow> string list \<Rightarrow> string \<Rightarrow> Vocabulary option
                       \<Rightarrow> exn + ('t list \<times> 't \<times> 't \<times> 't)"
  to_device :: "torch_module \<Rightarrow> exn option"
  load_state_dict :: "torch_module \<Rightarrow> 't \<Rightarrow> exn option"
  DataLoader :: "'t Dataset \<Rightarrow> int \<Rightarrow> exn + 't list"
  get_seq_batch_data :: "'t \<Rightarrow> int \<Rightarrow> int \<Rightarrow> int \<Rightarrow> int
                       \<Rightarrow> exn + ('t \<times> int list list \<times> 't \<times> 't \<times> 't)"
  get_tree_batch_data :: "'t \<Rightarrow> exn + ('t \<times> 't \<times> 't \<times> 't \<times> 't \<times> int list list \<times> 't \<times> 't)"
  encode :: "torch_module \<Rightarrow> 't \<Rightarrow> 't list \<Rightarrow> exn + ('t \<times> 't \<times> 't)"
  decode :: "torch_module \<Rightarrow> 't \<Rightarrow> int list \<Rightarrow> 't \<Rightarrow> 't \<Rightarrow> 't \<Rightarrow> 't \<Rightarrow> 't
                       \<Rightarrow> exn + (int list list \<times> 't)"
  get_metric :: "int list list \<Rightarrow> 't \<Rightarrow> Vocabulary option \<Rightarrow> bool \<Rightarrow> 't \<Rightarrow> 't
                       \<Rightarrow> exn + (real list \<times> string list)"

subsection \<open>Registry and readiness\<close>

definition is_ready :: "'t globals \<Rightarrow> bool" where
  "is_ready g =
    (length (checkpoint_dict g) \<noteq> 0 \<and> train_seq_dataset g \<noteq> None
      \<and> train_tree_dataset g \<noteq> None)"

definition get_checkpoint_path :: "string \<Rightarrow> string" where
  "get_checkpoint_path m =
    (if m = ''BiLSTM'' then ''Checkpoints/BiLSTM/spider/bilstm_big.pt''
     else if m = ''Relative-Transformer'' then
       ''Checkpoints/RelativeTransformer/spider/rel_transformer_big.pt''
     else if m = ''Transformer'' then ''Checkpoints/Transformer/spider/transformer_big.pt''
     else if m = ''TreeLSTM'' then ''Checkpoints/TreeLSTM/spider/tree2seq_big.pt''
     else [])"

text \<open>
  The loop of \<^verbatim>\<open>setup_checkpoints\<close> over the models still to load. An exception of
  \<^verbatim>\<open>torch.load\<close> ends it and leaves in the dict what was stored before.
\<close>

fun load_checkpoints :: "'t collaborators \<Rightarrow> string list \<Rightarrow> 't globals \<Rightarrow> exn option \<times> 't globals" where
  "load_checkpoints w [] g = (None, g)"
| "load_checkpoints w (m # ms) g =
    (case torch_load w (get_checkpoint_path m) of
      Inl e \<Rightarrow> (Some e, g)
    | Inr c \<Rightarrow>
        load_checkpoints w ms (g\<lparr>checkpoint_dict := AList.update m c (checkpoint_dict g)\<rparr>))"

definition setup_checkpoints :: "'t collaborators \<Rightarrow> 't globals \<Rightarrow> exn option \<times> 't globals" where
  "setup_checkpoints w g = load_checkpoints w SUPPORTED_MODELS g"

subsection \<open>Datasets sharing a vocabulary\<close>

definition lookup_vocab :: "Vocabulary list \<Rightarrow> ref \<Rightarrow> Vocabulary option" where
  "lookup_vocab store r = (if r < length store then Some (store ! r) else None)"

text \<open>
  Modelled from the spec: the constructors \<^verbatim>\<open>SeqDataset\<close> and \<^verbatim>\<open>TreeDataset\<close> of
  \<^verbatim>\<open>Data/dataset.py\<close> are missing. Constructed without a vocabulary, a dataset owns a
  new Vocabulary object built from its corpus (4.2: "constructs the Dataset (and its
  owned Vocabulary) from the fixed training corpus"); constructed with one, it is bound
  to that object (4.2: "bound to the given Vocabulary object"). The flag says which of
  the two classes is constructed.
\<close>

definition new_Dataset ::
  "'t collaborators \<Rightarrow> bool \<Rightarrow> string list \<Rightarrow> string \<Rightarrow> ref option \<Rightarrow> Vocabulary list
    \<Rightarrow> exn + ('t Dataset \<times> Vocabulary list)" where
  "new_Dataset w tree files table vocab_arg store =
    (case vocab_arg of
      Some r \<Rightarrow>
        (case corpus_payload w tree files table (lookup_vocab store r) of
          Inl e \<Rightarrow> Inl e
        | Inr (xs, oq, vm, i2t) \<Rightarrow>
            Inr (\<lparr>vocab = r, examples = xs, origin_questions = oq, val_map_list = vm,
                   idx2tok_map_list = i2t\<rparr>, store))
    | None \<Rightarrow>
        (case corpus_vocab w tree files table of
          Inl e \<Rightarrow> Inl e
        | Inr v \<Rightarrow>
            (case corpus_payload w tree files table (Some v) of
              Inl e \<Rightarrow> Inl e
            | Inr (xs, oq, vm, i2t) \<Rightarrow>
                Inr (\<lparr>vocab = length store, examples = xs, origin_questions = oq,
                       val_map_list = vm, idx2tok_map_list = i2t\<rparr>, store @ [v]))))"

definition SeqDataset ::
  "'t collaborators \<Rightarrow> string list \<Rightarrow> string \<Rightarrow> ref option \<Rightarrow> Vocabulary list
    \<Rightarrow> exn + ('t Dataset \<times> Vocabulary list)" where
  "SeqDataset w = new_Dataset w False"

definition TreeDataset ::
  "'t collaborators \<Rightarrow> string list \<Rightarrow> string \<Rightarrow> ref option \<Rightarrow> Vocabulary list
    \<Rightarrow> exn + ('t Dataset \<times> Vocabulary list)" where
  "TreeDataset w = new_Dataset w True"

text \<open>\<^verbatim>\<open>setup_models\<close>: each training dataset is built once, when the global is None.\<close>

definition setup_models :: "'t collaborators \<Rightarrow> 't globals \<Rightarrow> exn option \<times> 't globals" where
  "setup_models w g =
    (case (if train_seq_dataset g = None then
             (case SeqDataset w TRAIN_DATA_FILES TRAIN_TABLE_FILE_PATH None (vocabularies g) of
               Inl e \<Rightarrow> Inl e
             | Inr (d, store) \<Rightarrow> Inr (g\<lparr>train_seq_dataset := Some d, vocabularies := store\<rparr>))
           else Inr g) of
      Inl e \<Rightarrow> (Some e, g)
    | Inr g1 \<Rightarrow>
        (if train_tree_dataset g1 = None then
           (case TreeDataset w TRAIN_DATA_FILES TRAIN_TABLE_FILE_PATH None (vocabularies g1) of
             Inl e \<Rightarrow> (Some e, g1)
           | Inr (d, store) \<Rightarrow> (None, g1\<lparr>train_tree_dataset := Some d, vocabularies := store\<rparr>))
         else (None, g1)))"

definition get_train_dataset :: "'t globals \<Rightarrow> string \<Rightarrow> 't Dataset option" where
  "get_train_dataset g m =
    (if m \<in> set [''Relative-Transformer'', ''Transformer'', ''BiLSTM''] then train_seq_dataset g
     else if m = ''TreeLSTM'' then train_tree_dataset g
     else None)"

text \<open>
  An attribute read on None raises AttributeError with this message.
\<close>

definition attr_of_None :: "string \<Rightarrow> exn" where
  "attr_of_None a =
    Exception ([CHR 0x27] @ ''NoneType'' @ [CHR 0x27] @ '' object has no attribute ''
                 @ [CHR 0x27] @ a @ [CHR 0x27])"

text \<open>
  \<^verbatim>\<open>build_dataset\<close>. \<^verbatim>\<open>train_set.vocab\<close> raises when the training dataset is None.
  The result is None for a model outside the two families.
\<close>

definition build_dataset ::
  "'t collaborators \<Rightarrow> 't globals \<Rightarrow> string \<Rightarrow> string
    \<Rightarrow> exn + ('t Dataset option \<times> Vocabulary list)" where
  "build_dataset w g m user_request_data_file =
    (let test_data_files = [user_request_data_file] in
     if m \<in> set [''Relative-Transformer'', ''Transformer'', ''BiLSTM''] then
       (case get_train_dataset g m of
         None \<Rightarrow> Inl (attr_of_None ''vocab'')
       | Some train_set \<Rightarrow>
           (case SeqDataset w test_data_files TRAIN_TABLE_FILE_PATH (Some (vocab train_set))
                   (vocabularies g) of
             Inl e \<Rightarrow> Inl e
           | Inr (test_set, store) \<Rightarrow> Inr (Some test_set, store)))
     else if m = ''TreeLSTM'' then
       (case get_train_dataset g m of
         None \<Rightarrow> Inl (attr_of_None ''vocab'')
       | Some train_set \<Rightarrow>
           (case TreeDataset w test_data_files TRAIN_TABLE_FILE_PATH (Some (vocab train_set))
                   (vocabularies g) of
             Inl e \<Rightarrow> Inl e
           | Inr (test_set, store) \<Rightarrow> Inr (Some test_set, store)))
     else Inr (None, vocabularies g))"

subsection \<open>Autoregressive decoder\<close>

text \<open>
  \<^verbatim>\<open>argmax\<close> along the last dimension: the index of the first greatest score of a row;
  torch raises on an empty row.
\<close>

fun argmax_from :: "int \<Rightarrow> nat \<Rightarrow> nat \<Rightarrow> int list \<Rightarrow> nat" where
  "argmax_from best bi i [] = bi"
| "argmax_from best bi i (x # xs) =
    (if best < x then argmax_from x i (Suc i) xs else argmax_from best bi (Suc i) xs)"

definition argmax :: "int list \<Rightarrow> exn + int" where
  "argmax row =
    (case row of
      [] \<Rightarrow> Inl (Exception ''argmax(): Expected reduction dim to have non-zero size'')
    | x # xs \<Rightarrow> Inr (int (argmax_from x 0 1 xs)))"

fun argmax_rows :: "int list list \<Rightarrow> exn + int list" where
  "argmax_rows [] = Inr []"
| "argmax_rows (row # rows) =
    (case argmax row of
      Inl e \<Rightarrow> Inl e
    | Inr i \<Rightarrow> (case argmax_rows rows of Inl e \<Rightarrow> Inl e | Inr ids \<Rightarrow> Inr (i # ids)))"

text \<open>
  The variables of the decode loop. The token tensors of the loop live in a store
  (\<open>tensors\<close>), and \<open>inputs\<close> and the entries of \<open>preds\<close> are references into it:
  \<^verbatim>\<open>preds.append(next_input)\<close> appends the tensor object, not a copy of it, and the masked
  assignment on the next line writes into that object.
\<close>

record 't decoder_state =
  tensors :: "int list list"
  inputs :: ref
  hidden :: 't
  preds :: "ref list"

text \<open>
  One iteration of \<^verbatim>\<open>for _ in range(MAX_DECODE)\<close>. \<open>dec\<close> is \<^verbatim>\<open>model.decode\<close> with the
  arguments that stay the same over the loop. \<^verbatim>\<open>vocab.size\<close> raises on a vocabulary
  that is None.
\<close>

definition decode_step ::
  "(int list \<Rightarrow> 't \<Rightarrow> exn + (int list list \<times> 't)) \<Rightarrow> Vocabulary option
    \<Rightarrow> 't decoder_state \<Rightarrow> exn + 't decoder_state" where
  "decode_step dec vocab_opt s =
    (case dec (tensors s ! inputs s) (hidden s) of
      Inl e \<Rightarrow> Inl e
    | Inr (cur_out, hidden1) \<Rightarrow>
        (case argmax_rows cur_out of
          Inl e \<Rightarrow> Inl e
        | Inr ids \<Rightarrow>
            (let next_input = length (tensors s);
                 tensors1 = tensors s @ [ids];
                 preds1 = preds s @ [next_input]
             in case vocab_opt of
                  None \<Rightarrow> Inl (attr_of_None ''size'')
                | Some v \<Rightarrow>
                    Inr \<lparr>tensors = tensors1[next_input :=
                                      map (\<lambda>x. if vocab_size v \<le> x then unk_idx v else x)
                                        (tensors1 ! next_input)],
                         inputs = next_input,
                         hidden = hidden1,
                         preds = preds1\<rparr>)))"

fun decode_loop ::
  "nat \<Rightarrow> (int list \<Rightarrow> 't \<Rightarrow> exn + (int list list \<times> 't)) \<Rightarrow> Vocabulary option
    \<Rightarrow> 't decoder_state \<Rightarrow> exn + 't decoder_state" where
  "decode_loop 0 dec vocab_opt s = Inr s"
| "decode_loop (Suc n) dec vocab_opt s =
    (case decode_step dec vocab_opt s of
      Inl e \<Rightarrow> Inl e
    | Inr s1 \<Rightarrow> decode_loop n dec vocab_opt s1)"

text \<open>
  \<^verbatim>\<open>questions[:, 0].view(-1, 1)\<close>: the first entry of every row; indexing column 0 of a
  tensor with no column raises.
\<close>

definition first_column :: "int list list \<Rightarrow> exn + int list" where
  "first_column qs =
    (if list_ex (\<lambda>q. q = []) qs then
       Inl (Exception ''index 0 is out of bounds for dimension 1 with size 0'')
     else Inr (map hd qs))"

text \<open>
  \<^verbatim>\<open>torch.cat(preds, dim=1)\<close> followed by \<^verbatim>\<open>tolist()\<close> on tensors of shape (B, 1): row i
  holds entry i of every tensor, in order; torch raises on an empty list and on tensors
  of different sizes.
\<close>

definition torch_cat_dim1 :: "int list list \<Rightarrow> exn + int list list" where
  "torch_cat_dim1 ts =
    (case ts of
      [] \<Rightarrow> Inl (Exception ''torch.cat(): expected a non-empty list of Tensors'')
    | t # _ \<Rightarrow>
        if list_all (\<lambda>u. length u = length t) ts then
          Inr (map (\<lambda>i. map (\<lambda>u. u ! i) ts) [0..<length t])
        else Inl (Exception ''Sizes of tensors must match except in dimension 1''))"

text \<open>
  Lines 223 to 233 of \<^verbatim>\<open>evaluate\<close>: the decode loop of one batch, from the first
  input to the rows \<^verbatim>\<open>preds.tolist()\<close> adds to \<^verbatim>\<open>all_predictions\<close>.
\<close>

definition decode_batch ::
  "(int list \<Rightarrow> 't \<Rightarrow> exn + (int list list \<times> 't)) \<Rightarrow> Vocabulary option
    \<Rightarrow> int list list \<Rightarrow> 't \<Rightarrow> exn + int list list" where
  "decode_batch dec vocab_opt questions hidden0 =
    (case first_column questions of
      Inl e \<Rightarrow> Inl e
    | Inr inputs0 \<Rightarrow>
        (case decode_loop MAX_DECODE dec vocab_opt
                \<lparr>tensors = [inputs0], inputs = 0, hidden = hidden0, preds = []\<rparr> of
          Inl e \<Rightarrow> Inl e
        | Inr s \<Rightarrow> torch_cat_dim1 (map (\<lambda>r. tensors s ! r) (preds s))))"

text \<open>
  The head of the loop body over the batches (lines 205 to 221): batch data and
  encoder call by model name. None is the \<^verbatim>\<open>return "", 0\<close> of the last branch.
\<close>

definition encode_batch ::
  "'t collaborators \<Rightarrow> torch_module \<Rightarrow> 't \<Rightarrow> Vocabulary option \<Rightarrow> Namespace \<Rightarrow> string \<Rightarrow> 't
    \<Rightarrow> exn + ('t \<times> 't \<times> 't \<times> int list list \<times> 't \<times> 't) option" where
  "encode_batch w m weights vocab_opt a model_name batch_data =
    (if model_name \<in> set [''Relative-Transformer'', ''Transformer'', ''BiLSTM''] then
       (case vocab_opt of
         None \<Rightarrow> Inl (attr_of_None ''pad_idx'')
       | Some v \<Rightarrow>
           (case get_seq_batch_data w batch_data (pad_idx v) (vocab_size v) (unk_idx v)
                   (down_max_dist a) of
             Inl e \<Rightarrow> Inl e
           | Inr (nodes, questions, rela_dist, copy_mask, src2trg_map) \<Rightarrow>
               (case (if model_name = ''Relative-Transformer''
                      then encode w m weights [nodes, rela_dist]
                      else encode w m weights [nodes]) of
                 Inl e \<Rightarrow> Inl e
               | Inr (nodes1, hidden0, attn_mask) \<Rightarrow>
                   Inr (Some (nodes1, hidden0, attn_mask, questions, copy_mask, src2trg_map)))))
     else if model_name = ''TreeLSTM'' then
       (case get_tree_batch_data w batch_data of
         Inl e \<Rightarrow> Inl e
       | Inr (nodes, types, node_order, adjacency_list, edge_order, questions, copy_mask,
              src2trg_map) \<Rightarrow>
           (case encode w m weights [nodes, types, node_order, adjacency_list, edge_order] of
             Inl e \<Rightarrow> Inl e
           | Inr (nodes1, hidden0, attn_mask) \<Rightarrow>
               Inr (Some (nodes1, hidden0, attn_mask, questions, copy_mask, src2trg_map))))
     else Inr None)"

definition evaluate_batch ::
  "'t collaborators \<Rightarrow> torch_module \<Rightarrow> 't \<Rightarrow> Vocabulary option \<Rightarrow> Namespace \<Rightarrow> string \<Rightarrow> 't
    \<Rightarrow> exn + int list list option" where
  "evaluate_batch w m weights vocab_opt a model_name batch_data =
    (case encode_batch w m weights vocab_opt a model_name batch_data of
      Inl e \<Rightarrow> Inl e
    | Inr None \<Rightarrow> Inr None
    | Inr (Some (nodes, hidden0, attn_mask, questions, copy_mask, src2trg_map)) \<Rightarrow>
        (case decode_batch
                (\<lambda>inp h. decode w m weights inp nodes h attn_mask copy_mask src2trg_map)
                vocab_opt questions hidden0 of
          Inl e \<Rightarrow> Inl e
        | Inr rows \<Rightarrow> Inr (Some rows)))"

text \<open>The loop over the batches, \<open>all_predictions\<close> as accumulator.\<close>

fun evaluate_batches ::
  "'t collaborators \<Rightarrow> torch_module \<Rightarrow> 't \<Rightarrow> Vocabulary option \<Rightarrow> Namespace \<Rightarrow> string
    \<Rightarrow> 't list \<Rightarrow> int list list \<Rightarrow> exn + int list list option" where
  "evaluate_batches w m weights vocab_opt a model_name [] all_predictions =
    Inr (Some all_predictions)"
| "evaluate_batches w m weights vocab_opt a model_name (b # bs) all_predictions =
    (case evaluate_batch w m weights vocab_opt a model_name b of
      Inl e \<Rightarrow> Inl e
    | Inr None \<Rightarrow> Inr None
    | Inr (Some rows) \<Rightarrow>
        evaluate_batches w m weights vocab_opt a model_name bs (all_predictions @ rows))"

definition evaluate ::
  "'t collaborators \<Rightarrow> torch_module \<Rightarrow> 't \<Rightarrow> 't Dataset \<Rightarrow> Vocabulary option \<Rightarrow> Namespace
    \<Rightarrow> string \<Rightarrow> exn + (string \<times> real)" where
  "evaluate w m weights dataset vocab_opt a model_name =
    (if model_name \<notin> set SUPPORTED_MODELS then Inr ([], 0)
     else
       (case DataLoader w dataset (eval_batch_size a) of
         Inl e \<Rightarrow> Inl e
       | Inr batches \<Rightarrow>
           (case evaluate_batches w m weights vocab_opt a model_name batches [] of
             Inl e \<Rightarrow> Inl e
           | Inr None \<Rightarrow> Inr ([], 0)
           | Inr (Some all_predictions) \<Rightarrow>
               (case get_metric w all_predictions (origin_questions dataset) vocab_opt True
                       (val_map_list dataset) (idx2tok_map_list dataset) of
                 Inl e \<Rightarrow> Inl e
               | Inr (scores, result_predictions) \<Rightarrow>
                   Inr (if 0 < length result_predictions then hd result_predictions else [],
                        if 0 < length scores then hd scores else 0)))))"

subsection \<open>Request orchestration\<close>

text \<open>
  Modelled from the spec: the class \<^verbatim>\<open>EvaluationResult\<close> of
  \<^verbatim>\<open>flaskr/evaluation_result.py\<close> is missing. A new result has the seven fields of
  section 6; it is not a success and has no text, score or reason until the
  bridge assigns one (section 8: an unsupported tag, where the bridge assigns no
  \<open>success\<close>, gives \<open>success = false\<close>).
\<close>

definition new_EvaluationResult :: EvaluationResult where
  "new_EvaluationResult =
    \<lparr>modelName = [], original = [], hasScore = False, result = [], score = 0,
     success = False, failedReason = []\<rparr>"

text \<open>
  Python's \<^verbatim>\<open>str\<close> of a list of strings, as an f-string formats
  \<^verbatim>\<open>SUPPORTED_MODELS\<close>: the \<^verbatim>\<open>repr\<close> of each element, which for a string without
  quotes, backslashes or unprintable characters is the string in single quotes,
  joined by a comma and a space, in brackets.
\<close>

definition repr_str :: "string \<Rightarrow> string" where
  "repr_str s = [CHR 0x27] @ s @ [CHR 0x27]"

fun join_comma :: "string list \<Rightarrow> string" where
  "join_comma [] = []"
| "join_comma [s] = s"
| "join_comma (s # t # ss) = s @ '', '' @ join_comma (t # ss)"

definition str_list :: "string list \<Rightarrow> string" where
  "str_list xs = ''['' @ join_comma (map repr_str xs) @ '']''"

text \<open>
  The \<^verbatim>\<open>try\<close> block of \<^verbatim>\<open>run_sql2text\<close>: \<open>Inr\<close> when the block ends (by one of
  its \<^verbatim>\<open>return\<close> statements or at its last line), \<open>Inl\<close> with the exception when a
  stage raises; both with the globals as they are at that point. The two attribute
  writes on \<^verbatim>\<open>checkpoint_args\<close> change the object held by the dict. After line 264 the
  variable \<^verbatim>\<open>model\<close> holds what \<^verbatim>\<open>build_model\<close> returned, so that the f-string of
  line 266 formats None.
\<close>

definition run_sql2text_try ::
  "'t collaborators \<Rightarrow> int \<Rightarrow> 't globals \<Rightarrow> string \<Rightarrow> string \<Rightarrow> EvaluationResult
    \<Rightarrow> (exn \<times> 't globals) + (EvaluationResult \<times> 't globals)" where
  "run_sql2text_try w TYPE_NUM g m user_input_json_path res =
    (case map_of (checkpoint_dict g) m of
      None \<Rightarrow>
        Inr (res\<lparr>failedReason := ''checkpoint for model '' @ m @ '' is not loaded yet''\<rparr>, g)
    | Some ckpt \<Rightarrow>
        (let checkpoint_args = (args ckpt)\<lparr>data := ''spider'', eval_batch_size := 1\<rparr>;
             g1 = g\<lparr>checkpoint_dict :=
                     AList.update m (ckpt\<lparr>args := checkpoint_args\<rparr>) (checkpoint_dict g)\<rparr>
         in case build_dataset w g1 m user_input_json_path of
              Inl err \<Rightarrow> Inl (err, g1)
            | Inr (None, store) \<Rightarrow>
                Inr (res\<lparr>failedReason := ''build dataset for '' @ m @ '' failed''\<rparr>,
                     g1\<lparr>vocabularies := store\<rparr>)
            | Inr (Some test_dataset, store) \<Rightarrow>
                (let g2 = g1\<lparr>vocabularies := store\<rparr>;
                     test_vocab = lookup_vocab store (vocab test_dataset)
                 in case build_model TYPE_NUM (Some checkpoint_args) test_vocab of
                      None \<Rightarrow> Inr (res\<lparr>failedReason := ''build model for None failed''\<rparr>, g2)
                    | Some mdl \<Rightarrow>
                        (case to_device w mdl of
                          Some err \<Rightarrow> Inl (err, g2)
                        | None \<Rightarrow>
                            (case load_state_dict w mdl (state_dict ckpt) of
                              Some err \<Rightarrow> Inl (err, g2)
                            | None \<Rightarrow>
                                (case evaluate w mdl (state_dict ckpt) test_dataset test_vocab
                                        checkpoint_args (model checkpoint_args) of
                                  Inl err \<Rightarrow> Inl (err, g2)
                                | Inr (prediction, sc) \<Rightarrow>
                                    Inr (res\<lparr>result := prediction, score := sc,
                                             success := True\<rparr>, g2)))))))"

text \<open>
  \<^verbatim>\<open>run_sql2text\<close>: the \<^verbatim>\<open>try\<close> block with its handler \<^verbatim>\<open>except Exception as err\<close>,
  which stores \<^verbatim>\<open>str(err)\<close> as the reason and returns.
\<close>

definition run_sql2text ::
  "'t collaborators \<Rightarrow> int \<Rightarrow> 't globals \<Rightarrow> string \<Rightarrow> string \<Rightarrow> EvaluationResult
    \<Rightarrow> EvaluationResult \<times> 't globals" where
  "run_sql2text w TYPE_NUM g m user_input_json_path res =
    (case run_sql2text_try w TYPE_NUM g m user_input_json_path res of
      Inl (err, g1) \<Rightarrow> (res\<lparr>failedReason := str_exn err\<rparr>, g1)
    | Inr (res1, g1) \<Rightarrow> (res1, g1))"

text \<open>
  \<^verbatim>\<open>predict\<close>. The call of the materializer stands outside any \<^verbatim>\<open>try\<close>: what it
  raises leaves \<^verbatim>\<open>predict\<close> as an exception (\<open>Inl\<close>).
\<close>

definition predict ::
  "'t collaborators \<Rightarrow> int \<Rightarrow> 't globals \<Rightarrow> string \<Rightarrow> string \<Rightarrow> string option \<Rightarrow> string
    \<Rightarrow> string \<Rightarrow> exn + (EvaluationResult \<times> 't globals)" where
  "predict w TYPE_NUM g m db_id gold_nl_array input_sql input_identifier =
    (let res = new_EvaluationResult
                 \<lparr>modelName := m, original := input_sql,
                  hasScore := (gold_nl_array \<noteq> None \<and> gold_nl_array \<noteq> Some [])\<rparr>
     in if m \<notin> set SUPPORTED_MODELS then
          Inr (res\<lparr>failedReason := ''model '' @ [CHR 0x27] @ m @ [CHR 0x27]
                      @ '' is not in supported models '' @ str_list SUPPORTED_MODELS @ ''!''\<rparr>, g)
        else
          (let input_identifier1 = input_identifier @ ''@'' @ m in
           case build_input_sql_json w db_id gold_nl_array input_sql input_identifier1 of
             Inl err \<Rightarrow> Inl err
           | Inr jsonTargetPath \<Rightarrow>
               if jsonTargetPath = [] then
                 Inr (res\<lparr>failedReason := ''build json file for model '' @ [CHR 0x27] @ m
                             @ [CHR 0x27] @ '' input_sql '' @ [CHR 0x27] @ input_sql
                             @ [CHR 0x27] @ '' failed!''\<rparr>, g)
               else Inr (run_sql2text w TYPE_NUM g m jsonTargetPath res)))"

subsection \<open>Concrete inputs\<close>

definition example_args :: Namespace where
  "example_args =
    \<lparr>model = ''TreeLSTM'', data = ''spider'', eval_batch_size = 1, down_embed_dim = 300,
     hid_size = 512, dropout = 0, max_oov_num = 50, copy = True, down_d_model = 512,
     down_d_ff = 2048, down_head_num = 8, down_layer_num = 6, down_max_dist = 4,
     rel_share = False, k_v_share = False, absolute_pos = True\<rparr>"

definition example_vocab :: Vocabulary where
  "example_vocab = \<lparr>vocab_size = 3, pad_idx = 0, unk_idx = 1\<rparr>"

definition example_checkpoint :: "string \<Rightarrow> nat checkpoint" where
  "example_checkpoint tag = \<lparr>args = example_args\<lparr>model := tag\<rparr>, state_dict = 0\<rparr>"

text \<open>
  Collaborators that never raise: every checkpoint file loads, with the tag of its
  model; a dataset has one example; the decoder scores position 4 highest at every
  step, a copy id for the vocabulary of size 3.
\<close>

definition example_world :: "nat collaborators" where
  "example_world =
    \<lparr>build_input_sql_json = (\<lambda>db_id gold sql ident. Inr (''input/'' @ ident @ ''.json'')),
     torch_load = (\<lambda>path.
        if path = get_checkpoint_path ''BiLSTM'' then Inr (example_checkpoint ''BiLSTM'')
        else if path = get_checkpoint_path ''Relative-Transformer''
          then Inr (example_checkpoint ''Relative-Transformer'')
        else if path = get_checkpoint_path ''Transformer''
          then Inr (example_checkpoint ''Transformer'')
        else if path = get_checkpoint_path ''TreeLSTM'' then Inr (example_checkpoint ''TreeLSTM'')
        else Inl (Exception ''No such file or directory'')),
     corpus_vocab = (\<lambda>tree files table. Inr example_vocab),
     corpus_payload = (\<lambda>tree files table v. Inr ([7], 0, 0, 0)),
     to_device = (\<lambda>m. None),
     load_state_dict = (\<lambda>m weights. None),
     DataLoader = (\<lambda>d batch_size. Inr (examples d)),
     get_seq_batch_data = (\<lambda>b pad sz unk dist. Inr (b, [[2, 0]], 0, 0, 0)),
     get_tree_batch_data = (\<lambda>b. Inr (b, 0, 0, 0, 0, [[2, 0]], 0, 0)),
     encode = (\<lambda>m weights xs. Inr (0, 0, 0)),
     decode = (\<lambda>m weights inp nodes h attn_mask copy_mask src2trg_map.
        Inr (map (\<lambda>x. [0, 0, 0, 0, 5]) inp, h)),
     get_metric = (\<lambda>all_predictions oq v b vm i2t. Inr ([1], [''how many''])) \<rparr>"

text \<open>The same, except that only the BiLSTM checkpoint file can be loaded.\<close>

definition one_checkpoint_world :: "nat collaborators" where
  "one_checkpoint_world =
    example_world\<lparr>torch_load := (\<lambda>path.
      if path = get_checkpoint_path ''BiLSTM'' then Inr (example_checkpoint ''BiLSTM'')
      else Inl (Exception ''No such file or directory''))\<rparr>"



text \<open>The decoder of \<open>example_world\<close>, as the loop calls it.\<close>

definition example_decode :: "int list \<Rightarrow> nat \<Rightarrow> exn + (int list list \<times> nat)" where
  "example_decode inp h =
    decode example_world (TreeLSTM 300 3 9 512 0 0 50 True) 0 inp 0 h 0 0 0"

text \<open>The globals as the module initialises them.\<close>

definition initial_globals :: "nat globals" where
  "initial_globals =
    \<lparr>train_seq_dataset = None, train_tree_dataset = None, checkpoint_dict = [],
     vocabularies = []\<rparr>"

text \<open>
  The globals after \<^verbatim>\<open>setup_models\<close> and \<^verbatim>\<open>setup_checkpoints\<close> with
  \<open>example_world\<close>: the two training datasets own two Vocabulary objects (references
  0 and 1) with the same contents.
\<close>

definition ready_globals :: "nat globals" where
  "ready_globals =
    \<lparr>train_seq_dataset = Some \<lparr>vocab = 0, examples = [7], origin_questions = 0,
        val_map_list = 0, idx2tok_map_list = 0\<rparr>,
     train_tree_dataset = Some \<lparr>vocab = 1, examples = [7], origin_questions = 0,
        val_map_list = 0, idx2tok_map_list = 0\<rparr>,
     checkpoint_dict = map (\<lambda>m. (m, example_checkpoint m)) SUPPORTED_MODELS,
     vocabularies = [example_vocab, example_vocab]\<rparr>"

text \<open>
  Collaborators whose model raises in \<^verbatim>\<open>decode\<close>, an exception with the given
  message; with the empty message, what a failed \<^verbatim>\<open>assert\<close> without a message
  raises.
\<close>

definition raising_world :: "string \<Rightarrow> nat collaborators" where
  "raising_world msg =
    example_world\<lparr>decode := (\<lambda>m weights inp nodes h attn_mask copy_mask src2trg_map.
      Inl (Exception msg))\<rparr>"


text \<open>
  Globals whose checkpoint for BiLSTM was saved with a model tag that
  \<^verbatim>\<open>build_model\<close> does not know.
\<close>

definition stale_globals :: "nat globals" where
  "stale_globals = ready_globals\<lparr>checkpoint_dict := [(''BiLSTM'', example_checkpoint ''GCN'')]\<rparr>"

text \<open>Every supported model has an entry in the dict.\<close>

definition all_loaded :: "'t globals \<Rightarrow> bool" where
  "all_loaded g = list_all (\<lambda>m. map_of (checkpoint_dict g) m \<noteq> None) SUPPORTED_MODELS"

section \<open>Properties\<close>

subsection \<open>Model factory\<close>

lemma build_model_None_args: "build_model T None v = None"
  by (simp add: build_model_def)

lemma build_model_None_vocab: "build_model T a None = None"
  by (simp add: build_model_def split: option.splits)

lemma build_model_unsupported:
  "model a \<notin> set SUPPORTED_MODELS \<Longrightarrow> build_model T (Some a) v = None"
  by (simp add: build_model_def SUPPORTED_MODELS_def split: option.splits)

text \<open>
  C7. \<^verbatim>\<open>build_model\<close> returns None whenever the hyperparameters are absent, or the
  vocabulary is absent, or the tag in the hyperparameters is none of the four supported
  tags; for each of the four tags it returns one model, of the class of that tag, built
  from the hyperparameters and the vocabulary's size and pad id.
\<close>

theorem build_model_dispatch:
  "(args_opt = None \<or> vocab_opt = None
      \<or> (\<exists>a0. args_opt = Some a0 \<and> model a0 \<notin> set SUPPORTED_MODELS)
     \<longrightarrow> build_model T args_opt vocab_opt = None)
   \<and> (model a = ''BiLSTM'' \<longrightarrow>
        build_model T (Some a) (Some v) =
          Some (BiLSTM (down_embed_dim a) (vocab_size v) (hid_size a) (pad_idx v) (dropout a)
                  (max_oov_num a) (copy a)))
   \<and> (model a = ''Relative-Transformer'' \<longrightarrow>
        build_model T (Some a) (Some v) =
          Some (RelativeTransformer (down_embed_dim a) (vocab_size v) (down_d_model a)
                  (down_d_ff a) (down_head_num a) (down_layer_num a) (hid_size a) (dropout a)
                  (pad_idx v) (down_max_dist a) (max_oov_num a) (copy a) (rel_share a)
                  (k_v_share a)))
   \<and> (model a = ''Transformer'' \<longrightarrow>
        build_model T (Some a) (Some v) =
          Some (AbsoluteTransformer (down_embed_dim a) (vocab_size v) (down_d_model a)
                  (down_d_ff a) (down_head_num a) (down_layer_num a) (hid_size a) (dropout a)
                  (pad_idx v) (max_oov_num a) (copy a) (absolute_pos a)))
   \<and> (model a = ''TreeLSTM'' \<longrightarrow>
        build_model T (Some a) (Some v) =
          Some (TreeLSTM (down_embed_dim a) (vocab_size v) T (hid_size a) (dropout a)
                  (pad_idx v) (max_oov_num a) (copy a)))"
proof -
  have absent: "args_opt = None \<or> vocab_opt = None
      \<or> (\<exists>a0. args_opt = Some a0 \<and> model a0 \<notin> set SUPPORTED_MODELS)
     \<longrightarrow> build_model T args_opt vocab_opt = None"
    by (auto simp add: build_model_None_args build_model_None_vocab build_model_unsupported)
  have built: "model a = ''BiLSTM'' \<or> model a = ''Relative-Transformer''
      \<or> model a = ''Transformer'' \<or> model a = ''TreeLSTM'' \<Longrightarrow> ?thesis"
    using absent by (auto simp add: build_model_def)
  show ?thesis
    using absent built by blast
qed

theorem build_model_dispatch_witness:
  "build_model 9 None (Some example_vocab) = None
   \<and> build_model 9 (Some example_args) None = None
   \<and> model (example_args\<lparr>model := ''LSTM2''\<rparr>) \<notin> set SUPPORTED_MODELS
   \<and> build_model 9 (Some (example_args\<lparr>model := ''LSTM2''\<rparr>)) (Some example_vocab) = None
   \<and> model example_args = ''TreeLSTM''
   \<and> build_model 9 (Some example_args) (Some example_vocab)
       = Some (TreeLSTM 300 3 9 512 0 0 50 True)
   \<and> build_model 9 (Some (example_args\<lparr>model := ''BiLSTM''\<rparr>)) (Some example_vocab)
       = Some (BiLSTM 300 3 512 0 0 50 True)"
  using build_model_dispatch [of None "Some example_vocab" 9 example_args example_vocab]
    build_model_dispatch [of "Some example_args" None 9
      "example_args\<lparr>model := ''BiLSTM''\<rparr>" example_vocab]
    build_model_dispatch [of "Some (example_args\<lparr>model := ''LSTM2''\<rparr>)" "Some example_vocab" 9]
  by (simp add: example_args_def example_vocab_def SUPPORTED_MODELS_def)

subsection \<open>Registry and readiness\<close>

lemma load_checkpoints_frame:
  "load_checkpoints w ms g = (r, g') \<Longrightarrow>
     train_seq_dataset g' = train_seq_dataset g \<and> train_tree_dataset g' = train_tree_dataset g
     \<and> vocabularies g' = vocabularies g
     \<and> (\<forall>k. map_of (checkpoint_dict g) k \<noteq> None \<longrightarrow> map_of (checkpoint_dict g') k \<noteq> None)"
proof (induction ms arbitrary: g)
  case Nil
  then show ?case by simp
next
  case (Cons m ms)
  show ?case
  proof (cases "torch_load w (get_checkpoint_path m)")
    case (Inl e)
    with Cons.prems show ?thesis by simp
  next
    case (Inr c)
    with Cons.prems have
      "load_checkpoints w ms (g\<lparr>checkpoint_dict := AList.update m c (checkpoint_dict g)\<rparr>) = (r, g')"
      by simp
    from Cons.IH [OF this] show ?thesis
      by (simp add: update_conv')
  qed
qed

lemma load_checkpoints_all:
  "load_checkpoints w ms g = (None, g') \<Longrightarrow> m \<in> set ms \<Longrightarrow> map_of (checkpoint_dict g') m \<noteq> None"
proof (induction ms arbitrary: g)
  case Nil
  then show ?case by simp
next
  case (Cons k ms)
  show ?case
  proof (cases "torch_load w (get_checkpoint_path k)")
    case (Inl e)
    with Cons.prems show ?thesis by simp
  next
    case (Inr c)
    let ?g1 = "g\<lparr>checkpoint_dict := AList.update k c (checkpoint_dict g)\<rparr>"
    from Inr Cons.prems have run: "load_checkpoints w ms ?g1 = (None, g')"
      by simp
    show ?thesis
    proof (cases "m \<in> set ms")
      case True
      from Cons.IH [OF run True] show ?thesis .
    next
      case False
      with Cons.prems have "m = k" by simp
      then have "map_of (checkpoint_dict ?g1) m \<noteq> None"
        by (simp add: update_conv')
      with load_checkpoints_frame [OF run] show ?thesis by blast
    qed
  qed
qed

lemma setup_checkpoints_all_loaded:
  "setup_checkpoints w g = (None, g') \<Longrightarrow> all_loaded g'"
  unfolding setup_checkpoints_def all_loaded_def list_all_iff
  using load_checkpoints_all by blast

lemma is_ready_iff:
  "is_ready g \<longleftrightarrow> (\<exists>m. map_of (checkpoint_dict g) m \<noteq> None)
      \<and> train_seq_dataset g \<noteq> None \<and> train_tree_dataset g \<noteq> None"
proof -
  have "(\<exists>m. map_of (checkpoint_dict g) m \<noteq> None) \<longleftrightarrow> checkpoint_dict g \<noteq> []"
  proof (cases "checkpoint_dict g")
    case Nil
    then show ?thesis by simp
  next
    case (Cons p ps)
    then have "map_of (checkpoint_dict g) (fst p) \<noteq> None"
      by (cases p) simp
    with Cons show ?thesis by auto
  qed
  then show ?thesis by (simp add: is_ready_def)
qed


lemma setup_models_example:
  "setup_models example_world initial_globals =
    (None, \<lparr>train_seq_dataset = Some \<lparr>vocab = 0, examples = [7], origin_questions = 0,
                val_map_list = 0, idx2tok_map_list = 0\<rparr>,
             train_tree_dataset = Some \<lparr>vocab = 1, examples = [7], origin_questions = 0,
                val_map_list = 0, idx2tok_map_list = 0\<rparr>,
             checkpoint_dict = [],
             vocabularies = [example_vocab, example_vocab]\<rparr>)"
  by (simp add: setup_models_def initial_globals_def example_world_def SeqDataset_def
      TreeDataset_def new_Dataset_def)

text \<open>
  C4 (as amended). \<^verbatim>\<open>is_ready()\<close> is true exactly when the registry holds at least one
  checkpoint and both training datasets exist; in particular it is false while no
  checkpoint has been loaded. When \<^verbatim>\<open>setup_checkpoints\<close> has returned without an
  exception, all four checkpoints are loaded, and \<^verbatim>\<open>is_ready()\<close> is then true exactly
  when both training datasets exist.
\<close>

theorem is_ready_at_least_one:
  "(is_ready g \<longleftrightarrow>
      (\<exists>m. map_of (checkpoint_dict g) m \<noteq> None)
      \<and> train_seq_dataset g \<noteq> None \<and> train_tree_dataset g \<noteq> None)
   \<and> (setup_checkpoints w g = (None, g') \<longrightarrow>
        all_loaded g'
        \<and> (is_ready g' \<longleftrightarrow> train_seq_dataset g \<noteq> None \<and> train_tree_dataset g \<noteq> None))"
proof -
  have "all_loaded g' \<and> (is_ready g' \<longleftrightarrow> train_seq_dataset g \<noteq> None \<and> train_tree_dataset g \<noteq> None)"
    if run: "setup_checkpoints w g = (None, g')"
  proof -
    have loaded: "all_loaded g'"
      using run by (rule setup_checkpoints_all_loaded)
    then have "map_of (checkpoint_dict g') ''BiLSTM'' \<noteq> None"
      by (simp add: all_loaded_def SUPPORTED_MODELS_def)
    moreover have "train_seq_dataset g' = train_seq_dataset g"
      and "train_tree_dataset g' = train_tree_dataset g"
      using load_checkpoints_frame [of w SUPPORTED_MODELS g None g'] run
      by (simp_all add: setup_checkpoints_def)
    ultimately show ?thesis
      using loaded is_ready_iff [of g'] by auto
  qed
  then show ?thesis
    using is_ready_iff [of g] by blast
qed


lemma torch_load_example:
  "torch_load example_world (get_checkpoint_path m) =
    (if m \<in> set SUPPORTED_MODELS then Inr (example_checkpoint m)
     else Inl (Exception ''No such file or directory''))"
  by (simp add: example_world_def get_checkpoint_path_def SUPPORTED_MODELS_def)

lemma torch_load_one:
  "torch_load one_checkpoint_world (get_checkpoint_path m) =
    (if m = ''BiLSTM'' then Inr (example_checkpoint m)
     else Inl (Exception ''No such file or directory''))"
  by (simp add: one_checkpoint_world_def get_checkpoint_path_def)

theorem is_ready_at_least_one_witness:
  "fst (setup_checkpoints example_world (snd (setup_models example_world initial_globals))) = None
   \<and> all_loaded (snd (setup_checkpoints example_world (snd (setup_models example_world initial_globals))))
   \<and> is_ready (snd (setup_checkpoints example_world (snd (setup_models example_world initial_globals))))"
proof -
  let ?g = "snd (setup_models example_world initial_globals)"
  have none: "fst (setup_checkpoints example_world ?g) = None"
    by (simp add: setup_checkpoints_def torch_load_example SUPPORTED_MODELS_def)
  then have run: "setup_checkpoints example_world ?g = (None, snd (setup_checkpoints example_world ?g))"
    by (simp add: prod_eq_iff)
  have "train_seq_dataset ?g \<noteq> None" and "train_tree_dataset ?g \<noteq> None"
    by (simp_all add: setup_models_example)
  with none run
    is_ready_at_least_one [where g = ?g and w = example_world
      and g' = "snd (setup_checkpoints example_world ?g)"]
  show ?thesis by blast
qed

text \<open>
  C4 as stated fails: when only the first checkpoint file can be loaded,
  \<^verbatim>\<open>setup_checkpoints\<close> leaves one entry in the dict, and with both training datasets
  built \<^verbatim>\<open>is_ready()\<close> is true although three checkpoints are not loaded.
\<close>

theorem is_ready_all_loaded_counterexample:
  "is_ready (snd (setup_checkpoints one_checkpoint_world
                    (snd (setup_models example_world initial_globals))))
   \<and> \<not> all_loaded (snd (setup_checkpoints one_checkpoint_world
                    (snd (setup_models example_world initial_globals))))
   \<and> map_of (checkpoint_dict (snd (setup_checkpoints one_checkpoint_world
                    (snd (setup_models example_world initial_globals))))) ''TreeLSTM'' = None"
  by (simp add: setup_models_example setup_checkpoints_def SUPPORTED_MODELS_def
      torch_load_one is_ready_def all_loaded_def)


text \<open>The globals of the concrete runs below are those the two setup functions produce.\<close>

lemma ready_globals_reached:
  "setup_checkpoints example_world (snd (setup_models example_world initial_globals))
    = (None, ready_globals)"
  by (simp add: setup_models_example setup_checkpoints_def torch_load_example
      SUPPORTED_MODELS_def ready_globals_def)

subsection \<open>Autoregressive decoder\<close>



lemma decode_step_shape:
  assumes "decode_step dec vocab_opt s = Inr s1"
  shows "preds s1 = preds s @ [length (tensors s)]"
    and "inputs s1 = length (tensors s)"
    and "length (tensors s1) = Suc (length (tensors s))"
    and "\<forall>r < length (tensors s). tensors s1 ! r = tensors s ! r"
  using assms
  by (auto simp add: decode_step_def Let_def nth_append split: sum.splits option.splits)

lemma decode_step_alias:
  assumes "decode_step dec vocab_opt s = Inr s1"
  shows "last (preds s1) = inputs s1"
  using decode_step_shape(1,2) [OF assms] by simp

lemma decode_step_clamps_both:
  assumes "decode_step dec (Some v) s = Inr s1"
    and "dec (tensors s ! inputs s) (hidden s) = Inr (cur_out, h)"
    and "argmax_rows cur_out = Inr ids"
  shows "tensors s1 ! inputs s1 = map (\<lambda>x. if vocab_size v \<le> x then unk_idx v else x) ids"
    and "tensors s1 ! last (preds s1) = map (\<lambda>x. if vocab_size v \<le> x then unk_idx v else x) ids"
  using assms by (auto simp add: decode_step_def Let_def)









lemma example_decode_eq: "example_decode inp h = Inr (map (\<lambda>x. [0, 0, 0, 0, 5]) inp, h)"
  by (simp add: example_decode_def example_world_def)


lemma argmax_example: "argmax [0, 0, 0, 0, 5] = Inr 4"
  by (simp add: argmax_def)

lemma decode_step_example:
  assumes "i < length T" and "T ! i = [x]"
  shows "decode_step example_decode (Some example_vocab)
           \<lparr>tensors = T, inputs = i, hidden = h, preds = P\<rparr>
         = Inr \<lparr>tensors = T @ [[1]], inputs = length T, hidden = h, preds = P @ [length T]\<rparr>"
  using assms
  by (simp add: decode_step_def example_decode_eq argmax_example example_vocab_def Let_def)

lemma decode_loop_example:
  "i < length T \<Longrightarrow> T ! i = [x] \<Longrightarrow>
   decode_loop n example_decode (Some example_vocab)
     \<lparr>tensors = T, inputs = i, hidden = h, preds = P\<rparr>
   = Inr \<lparr>tensors = T @ replicate n [1],
          inputs = (if n = 0 then i else length T + n - 1),
          hidden = h,
          preds = P @ [length T ..< length T + n]\<rparr>"
proof (induction n arbitrary: T i x P)
  case 0
  then show ?case by simp
next
  case (Suc n)
  have next_ok: "length T < length (T @ [[1]])" "(T @ [[1]]) ! length T = [1::int]"
    by simp_all
  show ?case
    by (simp add: decode_step_example [OF Suc.prems] Suc.IH [OF next_ok]
        replicate_app_Cons_same upt_conv_Cons)
qed

lemma recorded_example:
  "map (\<lambda>r. (T @ xs) ! r) [length T ..< length T + length xs] = xs"
  by (rule nth_equalityI) (simp_all add: nth_append del: upt_Suc)

lemma torch_cat_dim1_example:
  "0 < n \<Longrightarrow> torch_cat_dim1 (replicate n [1::int]) = Inr [replicate n 1]"
  by (cases n) (simp_all add: torch_cat_dim1_def list_all_iff map_replicate_const)

lemma decode_batch_example:
  "decode_batch example_decode (Some example_vocab) [[2, 0]] 0 = Inr [replicate MAX_DECODE 1]"
proof -
  have "decode_loop MAX_DECODE example_decode (Some example_vocab)
          \<lparr>tensors = [[2]], inputs = 0, hidden = 0, preds = []\<rparr>
        = Inr \<lparr>tensors = [[2]] @ replicate MAX_DECODE [1],
               inputs = (if MAX_DECODE = 0 then 0 else length [[2::int]] + MAX_DECODE - 1),
               hidden = 0,
               preds = [] @ [length [[2::int]] ..< length [[2::int]] + MAX_DECODE]\<rparr>"
    by (rule decode_loop_example [where x = 2]) simp_all
  moreover have "0 < MAX_DECODE" by (simp add: MAX_DECODE_def)
  ultimately show ?thesis
    using recorded_example [of "[[2::int]]" "replicate MAX_DECODE [1]"]
    by (simp add: decode_batch_def first_column_def torch_cat_dim1_example del: upt_Suc)
qed



text \<open>
  C1 fails on the code. \<^verbatim>\<open>preds.append(next_input)\<close> records the tensor object that the
  next line overwrites in place, so that the recorded id is the clamped one. Here the
  vocabulary has size 3 and unk id 1 and the decoder selects id 4 at every step: the
  tensor fed forward holds 1, as the claim says, and so does the recorded tensor, which
  is the same object; the emitted row is 500 times 1, where the claim has 500 times 4.
\<close>

theorem decode_records_clamped_id:
  "argmax_rows [[0, 0, 0, 0, 5]] = Inr [4]
   \<and> vocab_size example_vocab = 3 \<and> unk_idx example_vocab = 1
   \<and> decode_step example_decode (Some example_vocab)
        \<lparr>tensors = [[2]], inputs = 0, hidden = 0, preds = []\<rparr>
      = Inr \<lparr>tensors = [[2], [1]], inputs = 1, hidden = 0, preds = [1]\<rparr>
   \<and> decode_batch example_decode (Some example_vocab) [[2, 0]] 0 = Inr [replicate 500 1]"
  using decode_batch_example decode_step_example [of 0 "[[2]]" 2 0 "[]"]
  by (simp add: argmax_example example_vocab_def MAX_DECODE_def)

subsection \<open>Datasets sharing a vocabulary\<close>

lemma new_Dataset_binds:
  "new_Dataset w tree files table (Some r) store = Inr (d, store1) \<Longrightarrow>
     vocab d = r \<and> store1 = store"
  by (auto simp add: new_Dataset_def split: sum.splits prod.splits)

text \<open>
  C5. The evaluation dataset that \<^verbatim>\<open>build_dataset\<close> returns refers to the Vocabulary
  object of the cached training dataset of its family: for the three sequence models
  that of \<^verbatim>\<open>train_seq_dataset\<close>, for TreeLSTM that of \<^verbatim>\<open>train_tree_dataset\<close>. The
  reference is the same, not only the contents, and no Vocabulary object is created.
\<close>

theorem build_dataset_shares_vocab:
  assumes "build_dataset w g m user_request_data_file = Inr (Some test_set, store)"
  shows "(m \<in> set [''Relative-Transformer'', ''Transformer'', ''BiLSTM''] \<longrightarrow>
            (\<exists>train_set. train_seq_dataset g = Some train_set
               \<and> vocab test_set = vocab train_set))
         \<and> (m = ''TreeLSTM'' \<longrightarrow>
            (\<exists>train_set. train_tree_dataset g = Some train_set
               \<and> vocab test_set = vocab train_set))
         \<and> (\<exists>train_set. get_train_dataset g m = Some train_set
               \<and> vocab test_set = vocab train_set)
         \<and> store = vocabularies g"
proof (cases "m \<in> set [''Relative-Transformer'', ''Transformer'', ''BiLSTM'']")
  case True
  with assms obtain train_set where train: "get_train_dataset g m = Some train_set"
    and built: "SeqDataset w [user_request_data_file] TRAIN_TABLE_FILE_PATH
                  (Some (vocab train_set)) (vocabularies g) = Inr (test_set, store)"
    by (auto simp add: build_dataset_def Let_def split: option.splits sum.splits)
  from built have "vocab test_set = vocab train_set \<and> store = vocabularies g"
    unfolding SeqDataset_def by (rule new_Dataset_binds)
  moreover from True train have "train_seq_dataset g = Some train_set"
    by (simp add: get_train_dataset_def)
  moreover from True have "m \<noteq> ''TreeLSTM''" by auto
  ultimately show ?thesis using train by simp
next
  case False
  with assms have tree: "m = ''TreeLSTM''"
    by (auto simp add: build_dataset_def Let_def split: if_splits)
  with False assms obtain train_set where train: "get_train_dataset g m = Some train_set"
    and built: "TreeDataset w [user_request_data_file] TRAIN_TABLE_FILE_PATH
                  (Some (vocab train_set)) (vocabularies g) = Inr (test_set, store)"
    by (auto simp add: build_dataset_def Let_def split: option.splits sum.splits)
  from built have "vocab test_set = vocab train_set \<and> store = vocabularies g"
    unfolding TreeDataset_def by (rule new_Dataset_binds)
  moreover from tree train have "train_tree_dataset g = Some train_set"
    by (simp add: get_train_dataset_def)
  ultimately show ?thesis using train False by simp
qed

lemma build_dataset_example:
  "build_dataset example_world ready_globals ''BiLSTM'' ''input/7@BiLSTM.json''
    = Inr (Some \<lparr>vocab = 0, examples = [7], origin_questions = 0, val_map_list = 0,
                  idx2tok_map_list = 0\<rparr>, [example_vocab, example_vocab])"
  "build_dataset example_world ready_globals ''TreeLSTM'' ''input/7@TreeLSTM.json''
    = Inr (Some \<lparr>vocab = 1, examples = [7], origin_questions = 0, val_map_list = 0,
                  idx2tok_map_list = 0\<rparr>, [example_vocab, example_vocab])"
  by (simp_all add: build_dataset_def get_train_dataset_def ready_globals_def SeqDataset_def
      TreeDataset_def new_Dataset_def example_world_def)

theorem build_dataset_shares_vocab_witness:
  "build_dataset example_world ready_globals ''TreeLSTM'' ''input/7@TreeLSTM.json''
    = Inr (Some \<lparr>vocab = 1, examples = [7], origin_questions = 0, val_map_list = 0,
                  idx2tok_map_list = 0\<rparr>, [example_vocab, example_vocab])
   \<and> map_option vocab (train_tree_dataset ready_globals) = Some 1
   \<and> map_option vocab (train_seq_dataset ready_globals) = Some 0
   \<and> lookup_vocab (vocabularies ready_globals) 0 = lookup_vocab (vocabularies ready_globals) 1"
proof -
  have built: "build_dataset example_world ready_globals ''TreeLSTM'' ''input/7@TreeLSTM.json''
    = Inr (Some \<lparr>vocab = 1, examples = [7], origin_questions = 0, val_map_list = 0,
                  idx2tok_map_list = 0\<rparr>, [example_vocab, example_vocab])"
    by (rule build_dataset_example(2))
  from build_dataset_shares_vocab [OF built]
  have "\<exists>train_set. train_tree_dataset ready_globals = Some train_set
          \<and> vocab \<lparr>vocab = 1, examples = [7], origin_questions = 0, val_map_list = 0,
                  idx2tok_map_list = (0::nat)\<rparr> = vocab train_set"
    by simp
  then have tree: "map_option vocab (train_tree_dataset ready_globals) = Some 1"
    by auto
  have seq: "map_option vocab (train_seq_dataset ready_globals) = Some 0"
    by (simp add: ready_globals_def)
  have same: "lookup_vocab (vocabularies ready_globals) 0
                = lookup_vocab (vocabularies ready_globals) 1"
    by (simp add: ready_globals_def lookup_vocab_def)
  from built tree seq same show ?thesis by simp
qed

subsection \<open>Request orchestration\<close>

lemma example_world_fields:
  "build_input_sql_json example_world db_id gold sql ident = Inr (''input/'' @ ident @ ''.json'')"
  "corpus_payload example_world tree files table v = Inr ([7], 0, 0, 0)"
  "to_device example_world mdl = None"
  "load_state_dict example_world mdl weights = None"
  "DataLoader example_world d batch_size = Inr (examples d)"
  "get_seq_batch_data example_world b pad sz unk md = Inr (b, [[2, 0]], 0, 0, 0)"
  "get_tree_batch_data example_world b = Inr (b, 0, 0, 0, 0, [[2, 0]], 0, 0)"
  "encode example_world mdl weights xs = Inr (0, 0, 0)"
  "get_metric example_world all_predictions oq v flag vm i2t = Inr ([1], [''how many''])"
  by (simp_all add: example_world_def)

lemma decode_example_world:
  "(\<lambda>inp h. decode example_world mdl weights inp nodes h am cm s2t) = example_decode"
  by (intro ext) (simp add: example_decode_def example_world_def)

lemma evaluate_example:
  assumes "model_name \<in> set SUPPORTED_MODELS" and "examples d = [7]"
  shows "evaluate example_world mdl weights d (Some example_vocab) a model_name
          = Inr (''how many'', 1)"
proof -
  have enc: "\<exists>nodes hid am cm s2t.
      encode_batch example_world mdl weights (Some example_vocab) a model_name 7
        = Inr (Some (nodes, hid, am, [[2, 0]], cm, s2t)) \<and> hid = 0"
    using assms(1)
    by (auto simp add: encode_batch_def example_world_fields SUPPORTED_MODELS_def)
  then have "evaluate_batch example_world mdl weights (Some example_vocab) a model_name 7
              = Inr (Some [replicate MAX_DECODE 1])"
    by (auto simp add: evaluate_batch_def decode_example_world decode_batch_example)
  then show ?thesis
    using assms by (simp add: evaluate_def example_world_fields)
qed

lemma run_sql2text_frame:
  "modelName (fst (run_sql2text w T g m p res)) = modelName res
   \<and> original (fst (run_sql2text w T g m p res)) = original res
   \<and> hasScore (fst (run_sql2text w T g m p res)) = hasScore res"
  by (simp add: run_sql2text_def run_sql2text_try_def Let_def
      split: option.splits sum.splits prod.splits)


lemma predict_cases:
  assumes "predict w T g m db_id gold sql ident = Inr (res, g1)"
  obtains (unsupported) "m \<notin> set SUPPORTED_MODELS"
      "res = new_EvaluationResult
               \<lparr>modelName := m, original := sql,
                hasScore := (gold \<noteq> None \<and> gold \<noteq> Some []),
                failedReason := ''model '' @ [CHR 0x27] @ m @ [CHR 0x27]
                   @ '' is not in supported models '' @ str_list SUPPORTED_MODELS @ ''!''\<rparr>"
      "g1 = g"
    | (no_file) "m \<in> set SUPPORTED_MODELS"
      "build_input_sql_json w db_id gold sql (ident @ ''@'' @ m) = Inr []"
      "res = new_EvaluationResult
               \<lparr>modelName := m, original := sql,
                hasScore := (gold \<noteq> None \<and> gold \<noteq> Some []),
                failedReason := ''build json file for model '' @ [CHR 0x27] @ m
                   @ [CHR 0x27] @ '' input_sql '' @ [CHR 0x27] @ sql
                   @ [CHR 0x27] @ '' failed!''\<rparr>"
      "g1 = g"
    | (run) p where "m \<in> set SUPPORTED_MODELS" "p \<noteq> []"
      "build_input_sql_json w db_id gold sql (ident @ ''@'' @ m) = Inr p"
      "run_sql2text w T g m p
         (new_EvaluationResult
               \<lparr>modelName := m, original := sql,
                hasScore := (gold \<noteq> None \<and> gold \<noteq> Some [])\<rparr>) = (res, g1)"
proof (cases "m \<in> set SUPPORTED_MODELS")
  case False
  with assms unsupported show ?thesis
    by (simp add: predict_def Let_def)
next
  case True
  show ?thesis
  proof (cases "build_input_sql_json w db_id gold sql (ident @ ''@'' @ m)")
    case (Inl e)
    with assms True show ?thesis by (simp add: predict_def Let_def)
  next
    case (Inr p)
    show ?thesis
    proof (cases "p = []")
      case empty: True
      with assms True Inr no_file show ?thesis by (simp add: predict_def Let_def)
    next
      case False
      with assms True Inr run show ?thesis by (simp add: predict_def Let_def)
    qed
  qed
qed


lemma ready_checkpoints:
  "checkpoint_dict ready_globals =
    [(''BiLSTM'', example_checkpoint ''BiLSTM''),
     (''Relative-Transformer'', example_checkpoint ''Relative-Transformer''),
     (''Transformer'', example_checkpoint ''Transformer''),
     (''TreeLSTM'', example_checkpoint ''TreeLSTM'')]"
  by (simp add: ready_globals_def SUPPORTED_MODELS_def)

lemma example_checkpoint_args:
  "(args (example_checkpoint m))\<lparr>data := ''spider'', eval_batch_size := 1\<rparr>
     = args (example_checkpoint m)"
  "example_checkpoint m\<lparr>args := args (example_checkpoint m)\<rparr> = example_checkpoint m"
  "model (args (example_checkpoint m)) = m"
  "state_dict (example_checkpoint m) = 0"
  by (simp_all add: example_checkpoint_def example_args_def)

lemma run_sql2text_try_BiLSTM:
  "run_sql2text_try example_world 9 ready_globals ''BiLSTM'' ''input/7@BiLSTM.json'' res
    = Inr (res\<lparr>result := ''how many'', score := 1, success := True\<rparr>, ready_globals)"
proof -
  have ck: "map_of (checkpoint_dict ready_globals) ''BiLSTM'' = Some (example_checkpoint ''BiLSTM'')"
    by (simp add: ready_checkpoints)
  have upd: "ready_globals\<lparr>checkpoint_dict :=
       AList.update ''BiLSTM'' (example_checkpoint ''BiLSTM'') (checkpoint_dict ready_globals)\<rparr>
     = ready_globals"
    by (simp add: ready_checkpoints)
  have store: "ready_globals\<lparr>vocabularies := [example_vocab, example_vocab]\<rparr> = ready_globals"
    by (simp add: ready_globals_def)
  have voc: "lookup_vocab [example_vocab, example_vocab] 0 = Some example_vocab"
    by (simp add: lookup_vocab_def)
  have built: "build_model 9 (Some (args (example_checkpoint ''BiLSTM''))) (Some example_vocab)
                = Some (BiLSTM 300 3 512 0 0 50 True)"
    by (simp add: build_model_def example_checkpoint_def example_args_def example_vocab_def)
  have ev: "evaluate example_world (BiLSTM 300 3 512 0 0 50 True) 0
              \<lparr>vocab = 0, examples = [7], origin_questions = 0, val_map_list = 0,
                 idx2tok_map_list = 0\<rparr> (Some example_vocab)
              (args (example_checkpoint ''BiLSTM'')) ''BiLSTM'' = Inr (''how many'', 1)"
    by (rule evaluate_example) (simp_all add: SUPPORTED_MODELS_def)
  show ?thesis
    by (simp add: run_sql2text_try_def ck example_checkpoint_args upd build_dataset_example
        store voc built example_world_fields ev)
qed

lemma predict_BiLSTM:
  "predict example_world 9 ready_globals ''BiLSTM'' db_id gold sql ''7''
    = Inr (\<lparr>modelName = ''BiLSTM'', original = sql,
             hasScore = (gold \<noteq> None \<and> gold \<noteq> Some []), result = ''how many'', score = 1,
             success = True, failedReason = []\<rparr>, ready_globals)"
  by (simp add: predict_def SUPPORTED_MODELS_def example_world_fields run_sql2text_def
      run_sql2text_try_BiLSTM new_EvaluationResult_def)









text \<open>
  C8. In every result that \<^verbatim>\<open>predict\<close> returns, \<^verbatim>\<open>hasScore\<close> is true exactly when
  the gold text is neither None nor the empty string.
\<close>

theorem predict_hasScore:
  assumes "predict w T g m db_id gold_nl_array input_sql input_identifier = Inr (res, g1)"
  shows "hasScore res \<longleftrightarrow> (gold_nl_array \<noteq> None \<and> gold_nl_array \<noteq> Some [])"
  using assms
proof (cases rule: predict_cases)
  case unsupported
  then show ?thesis by simp
next
  case no_file
  then show ?thesis by simp
next
  case (run p)
  have "hasScore (fst (run_sql2text w T g m p
          (new_EvaluationResult
             \<lparr>modelName := m, original := input_sql,
              hasScore := (gold_nl_array \<noteq> None \<and> gold_nl_array \<noteq> Some [])\<rparr>)))
        = (gold_nl_array \<noteq> None \<and> gold_nl_array \<noteq> Some [])"
    by (simp add: run_sql2text_frame)
  with run(4) show ?thesis by simp
qed

theorem predict_hasScore_witness:
  "predict example_world 9 ready_globals ''BiLSTM'' ''concert_singer''
      (Some ''How many singers do we have?'') ''SELECT count(*) FROM singer'' ''7''
    = Inr (\<lparr>modelName = ''BiLSTM'', original = ''SELECT count(*) FROM singer'',
             hasScore = True, result = ''how many'', score = 1, success = True,
             failedReason = []\<rparr>, ready_globals)
   \<and> predict example_world 9 ready_globals ''BiLSTM'' ''concert_singer'' (Some [])
        ''SELECT count(*) FROM singer'' ''7''
    = Inr (\<lparr>modelName = ''BiLSTM'', original = ''SELECT count(*) FROM singer'',
             hasScore = False, result = ''how many'', score = 1, success = True,
             failedReason = []\<rparr>, ready_globals)
   \<and> predict example_world 9 ready_globals ''BiLSTM'' ''concert_singer'' None
        ''SELECT count(*) FROM singer'' ''7''
    = Inr (\<lparr>modelName = ''BiLSTM'', original = ''SELECT count(*) FROM singer'',
             hasScore = False, result = ''how many'', score = 1, success = True,
             failedReason = []\<rparr>, ready_globals)"
  using predict_hasScore [OF predict_BiLSTM [of "''concert_singer''"
      "Some ''How many singers do we have?''" "''SELECT count(*) FROM singer''"]]
    predict_hasScore [OF predict_BiLSTM [of "''concert_singer''" "Some []"
      "''SELECT count(*) FROM singer''"]]
    predict_hasScore [OF predict_BiLSTM [of "''concert_singer''" None
      "''SELECT count(*) FROM singer''"]]
  by (simp add: predict_BiLSTM)

text \<open>
  C9. In every result that \<^verbatim>\<open>predict\<close> returns, whatever the outcome,
  \<^verbatim>\<open>modelName\<close> is the model argument and \<^verbatim>\<open>original\<close> is the query argument, both as
  passed in.
\<close>

theorem predict_keeps_model_and_query:
  assumes "predict w T g m db_id gold_nl_array input_sql input_identifier = Inr (res, g1)"
  shows "modelName res = m \<and> original res = input_sql"
  using assms
proof (cases rule: predict_cases)
  case unsupported
  then show ?thesis by simp
next
  case no_file
  then show ?thesis by simp
next
  case (run p)
  let ?res0 = "new_EvaluationResult
                 \<lparr>modelName := m, original := input_sql,
                  hasScore := (gold_nl_array \<noteq> None \<and> gold_nl_array \<noteq> Some [])\<rparr>"
  have "modelName (fst (run_sql2text w T g m p ?res0)) = m"
    and "original (fst (run_sql2text w T g m p ?res0)) = input_sql"
    by (simp_all add: run_sql2text_frame)
  with run(4) show ?thesis by simp
qed

lemma raising_world_fields:
  "build_input_sql_json (raising_world msg) = build_input_sql_json example_world"
  "corpus_payload (raising_world msg) = corpus_payload example_world"
  "to_device (raising_world msg) = to_device example_world"
  "load_state_dict (raising_world msg) = load_state_dict example_world"
  "DataLoader (raising_world msg) = DataLoader example_world"
  "get_seq_batch_data (raising_world msg) = get_seq_batch_data example_world"
  "get_tree_batch_data (raising_world msg) = get_tree_batch_data example_world"
  "encode (raising_world msg) = encode example_world"
  "decode (raising_world msg) mdl weights inp nodes h am cm s2t = Inl (Exception msg)"
  by (simp_all add: raising_world_def)

lemma decode_loop_raises:
  "0 < n \<Longrightarrow> dec (tensors s ! inputs s) (hidden s) = Inl e \<Longrightarrow>
     decode_loop n dec vocab_opt s = Inl e"
  by (cases n) (simp_all add: decode_step_def)

lemma evaluate_raising:
  assumes "model_name \<in> set SUPPORTED_MODELS" and "examples d = [7]"
  shows "evaluate (raising_world msg) mdl weights d (Some example_vocab) a model_name
          = Inl (Exception msg)"
proof -
  have enc: "\<exists>nodes hid am cm s2t.
      encode_batch (raising_world msg) mdl weights (Some example_vocab) a model_name 7
        = Inr (Some (nodes, hid, am, [[2, 0]], cm, s2t))"
    using assms(1)
    by (auto simp add: encode_batch_def raising_world_fields example_world_fields
        SUPPORTED_MODELS_def)
  have "decode_batch (\<lambda>inp h. decode (raising_world msg) mdl weights inp nodes h am cm s2t)
          (Some example_vocab) [[2, 0]] hid = Inl (Exception msg)" for nodes hid am cm s2t
    by (simp add: decode_batch_def first_column_def raising_world_fields decode_loop_raises
        MAX_DECODE_def)
  with enc have "evaluate_batch (raising_world msg) mdl weights (Some example_vocab) a model_name 7
              = Inl (Exception msg)"
    by (auto simp add: evaluate_batch_def)
  then show ?thesis
    using assms by (simp add: evaluate_def raising_world_fields example_world_fields)
qed

lemma new_Dataset_raising: "new_Dataset (raising_world msg) = new_Dataset example_world"
  by (intro ext)
    (simp add: new_Dataset_def raising_world_def cong: option.case_cong sum.case_cong)

lemma build_dataset_raising:
  "build_dataset (raising_world msg) g m p = build_dataset example_world g m p"
  unfolding build_dataset_def SeqDataset_def TreeDataset_def new_Dataset_raising
  by (rule refl)

lemma run_sql2text_try_raising:
  "run_sql2text_try (raising_world msg) 9 ready_globals ''BiLSTM'' ''input/7@BiLSTM.json'' res
    = Inl (Exception msg, ready_globals)"
proof -
  have ck: "map_of (checkpoint_dict ready_globals) ''BiLSTM'' = Some (example_checkpoint ''BiLSTM'')"
    by (simp add: ready_checkpoints)
  have upd: "ready_globals\<lparr>checkpoint_dict :=
       AList.update ''BiLSTM'' (example_checkpoint ''BiLSTM'') (checkpoint_dict ready_globals)\<rparr>
     = ready_globals"
    by (simp add: ready_checkpoints)
  have store: "ready_globals\<lparr>vocabularies := [example_vocab, example_vocab]\<rparr> = ready_globals"
    by (simp add: ready_globals_def)
  have voc: "lookup_vocab [example_vocab, example_vocab] 0 = Some example_vocab"
    by (simp add: lookup_vocab_def)
  have built: "build_model 9 (Some (args (example_checkpoint ''BiLSTM''))) (Some example_vocab)
                = Some (BiLSTM 300 3 512 0 0 50 True)"
    by (simp add: build_model_def example_checkpoint_def example_args_def example_vocab_def)
  have ev: "evaluate (raising_world msg) (BiLSTM 300 3 512 0 0 50 True) 0
              \<lparr>vocab = 0, examples = [7], origin_questions = 0, val_map_list = 0,
                 idx2tok_map_list = 0\<rparr> (Some example_vocab)
              (args (example_checkpoint ''BiLSTM'')) ''BiLSTM'' = Inl (Exception msg)"
    by (rule evaluate_raising) (simp_all add: SUPPORTED_MODELS_def)
  show ?thesis
    by (simp add: run_sql2text_try_def ck example_checkpoint_args upd build_dataset_raising
        build_dataset_example store voc built raising_world_fields example_world_fields ev)
qed

lemma predict_raising:
  "predict (raising_world msg) 9 ready_globals ''BiLSTM'' db_id gold sql ''7''
    = Inr (\<lparr>modelName = ''BiLSTM'', original = sql,
             hasScore = (gold \<noteq> None \<and> gold \<noteq> Some []), result = [], score = 0,
             success = False, failedReason = msg\<rparr>, ready_globals)"
  by (simp add: predict_def SUPPORTED_MODELS_def raising_world_fields example_world_fields
      run_sql2text_def run_sql2text_try_raising new_EvaluationResult_def)


theorem predict_keeps_model_and_query_witness:
  "predict (raising_world ''CUDA out of memory'') 9 ready_globals ''BiLSTM'' ''concert_singer''
      None ''SELECT count(*) FROM singer'' ''7''
    = Inr (\<lparr>modelName = ''BiLSTM'', original = ''SELECT count(*) FROM singer'',
             hasScore = False, result = [], score = 0, success = False,
             failedReason = ''CUDA out of memory''\<rparr>, ready_globals)
   \<and> predict example_world 9 ready_globals ''BiLSTM'' ''concert_singer''
      None ''SELECT count(*) FROM singer'' ''7''
    = Inr (\<lparr>modelName = ''BiLSTM'', original = ''SELECT count(*) FROM singer'',
             hasScore = False, result = ''how many'', score = 1, success = True,
             failedReason = []\<rparr>, ready_globals)"
  using predict_keeps_model_and_query [OF predict_raising [of "''CUDA out of memory''"
      "''concert_singer''" None "''SELECT count(*) FROM singer''"]]
    predict_keeps_model_and_query [OF predict_BiLSTM [of "''concert_singer''" None
      "''SELECT count(*) FROM singer''"]]
  by (simp add: predict_raising predict_BiLSTM)

text \<open>
  C10. When the checkpoint is loaded, the dataset is built and \<^verbatim>\<open>build_model\<close>
  returns None, the reason \<^verbatim>\<open>run_sql2text\<close> stores is the string "build model for None
  failed", the success flag is left as it was, and the reason names none of the
  supported architectures.
\<close>

theorem build_model_failure_reason:
  assumes "map_of (checkpoint_dict g) m = Some ckpt"
    and "checkpoint_args = (args ckpt)\<lparr>data := ''spider'', eval_batch_size := 1\<rparr>"
    and "build_dataset w
           (g\<lparr>checkpoint_dict :=
                AList.update m (ckpt\<lparr>args := checkpoint_args\<rparr>) (checkpoint_dict g)\<rparr>)
           m user_input_json_path = Inr (Some test_dataset, store)"
    and "build_model T (Some checkpoint_args) (lookup_vocab store (vocab test_dataset)) = None"
  shows "failedReason (fst (run_sql2text w T g m user_input_json_path res))
           = ''build model for None failed''
         \<and> success (fst (run_sql2text w T g m user_input_json_path res)) = success res
         \<and> list_all (\<lambda>tag. \<not> sublist tag ''build model for None failed'') SUPPORTED_MODELS"
proof -
  have names: "list_all (\<lambda>tag. \<not> sublist tag ''build model for None failed'') SUPPORTED_MODELS"
  proof -
    have "\<not> sublist tag ''build model for None failed''"
      if "tag \<in> set SUPPORTED_MODELS" for tag
    proof -
      from that have "CHR ''L'' \<in> set tag \<or> CHR ''T'' \<in> set tag"
        by (auto simp add: SUPPORTED_MODELS_def)
      moreover have "CHR ''L'' \<notin> set ''build model for None failed''"
        and "CHR ''T'' \<notin> set ''build model for None failed''"
        by simp_all
      ultimately show ?thesis
        using set_mono_sublist by blast
    qed
    then show ?thesis by (simp add: list_all_iff)
  qed
  from assms have "run_sql2text_try w T g m user_input_json_path res
      = Inr (res\<lparr>failedReason := ''build model for None failed''\<rparr>,
             g\<lparr>checkpoint_dict :=
                AList.update m (ckpt\<lparr>args := checkpoint_args\<rparr>) (checkpoint_dict g),
               vocabularies := store\<rparr>)"
    by (simp add: run_sql2text_try_def Let_def)
  then show ?thesis
    using names by (simp add: run_sql2text_def)
qed

lemma run_sql2text_stale:
  "build_dataset example_world
     (stale_globals\<lparr>checkpoint_dict :=
        AList.update ''BiLSTM''
          (example_checkpoint ''GCN''\<lparr>args := args (example_checkpoint ''GCN'')\<rparr>)
          (checkpoint_dict stale_globals)\<rparr>)
     ''BiLSTM'' ''input/7@BiLSTM.json''
    = Inr (Some \<lparr>vocab = 0, examples = [7], origin_questions = 0, val_map_list = 0,
                  idx2tok_map_list = 0\<rparr>, [example_vocab, example_vocab])"
  by (simp add: build_dataset_def get_train_dataset_def stale_globals_def ready_globals_def
      SeqDataset_def new_Dataset_def example_world_fields)

theorem build_model_failure_reason_witness:
  "map_of (checkpoint_dict stale_globals) ''BiLSTM'' = Some (example_checkpoint ''GCN'')
   \<and> model (args (example_checkpoint ''GCN'')) = ''GCN''
   \<and> build_model 9 (Some (args (example_checkpoint ''GCN''))) (Some example_vocab) = None
   \<and> failedReason (fst (run_sql2text example_world 9 stale_globals ''BiLSTM''
                            ''input/7@BiLSTM.json'' new_EvaluationResult))
       = ''build model for None failed''"
proof -
  have ck: "map_of (checkpoint_dict stale_globals) ''BiLSTM'' = Some (example_checkpoint ''GCN'')"
    by (simp add: stale_globals_def)
  have same: "args (example_checkpoint ''GCN'')
      = (args (example_checkpoint ''GCN''))\<lparr>data := ''spider'', eval_batch_size := 1\<rparr>"
    by (simp add: example_checkpoint_args)
  have none: "build_model 9 (Some (args (example_checkpoint ''GCN'')))
               (lookup_vocab [example_vocab, example_vocab]
                  (vocab \<lparr>vocab = 0, examples = [7::nat], origin_questions = 0::nat,
                          val_map_list = 0, idx2tok_map_list = 0\<rparr>)) = None"
    by (simp add: build_model_def example_checkpoint_args lookup_vocab_def)
  have none1: "build_model 9 (Some (args (example_checkpoint ''GCN''))) (Some example_vocab) = None"
    by (simp add: build_model_def example_checkpoint_args)
  from build_model_failure_reason [OF ck same run_sql2text_stale none,
      of new_EvaluationResult] ck none1
  show ?thesis by (simp add: example_checkpoint_args)
qed







end
